theory Spec2Isabelle
  imports Complex_Main "HOL-Library.AList"
begin

section \<open>Cat Jump: a shallow embedding of CatJump.py\<close>

text \<open>
  Python integers are modelled as \<open>int\<close>. Python floats (the vertical velocity, the
  difficulty multipliers, the results of \<^verbatim>\<open>random.random()\<close>) are modelled as
  \<open>real\<close>: the arithmetic is exact, the rounding of IEEE doubles is left out.
  Mutation of the player and of the platforms is explicit state passing.
\<close>

subsection \<open>GameSettings\<close>

definition SCREEN_WIDTH :: int where "SCREEN_WIDTH = 1024"
definition SCREEN_HEIGHT :: int where "SCREEN_HEIGHT = 768"
definition PLAYER_WIDTH :: int where "PLAYER_WIDTH = 90"
definition PLAYER_HEIGHT :: int where "PLAYER_HEIGHT = 90"
definition PLAYER_SPEED :: int where "PLAYER_SPEED = 7"
definition GRAVITY :: real where "GRAVITY = 0.4"
definition PLAYER_JUMP :: int where "PLAYER_JUMP = - 19"
definition SCORE_PER_DIFFICULTY :: int where "SCORE_PER_DIFFICULTY = 500"


subsection \<open>Python's \<^verbatim>\<open>int()\<close> on a float, and pygame.Rect\<close>

text \<open>\<^verbatim>\<open>int(f)\<close> truncates towards zero. A pygame Rect stores integers; a float
  assigned to one of its coordinates is truncated the same way.\<close>

definition py_int :: "real \<Rightarrow> int" where
  "py_int r = (if 0 \<le> r then \<lfloor>r\<rfloor> else \<lceil>r\<rceil>)"

record Rect =
  rect_x :: int
  rect_y :: int
  rect_w :: int
  rect_h :: int

definition rect_left :: "Rect \<Rightarrow> int" where "rect_left r = rect_x r"
definition rect_top :: "Rect \<Rightarrow> int" where "rect_top r = rect_y r"
definition rect_right :: "Rect \<Rightarrow> int" where "rect_right r = rect_x r + rect_w r"
definition rect_bottom :: "Rect \<Rightarrow> int" where "rect_bottom r = rect_y r + rect_h r"

definition set_left :: "int \<Rightarrow> Rect \<Rightarrow> Rect" where
  "set_left v r = r\<lparr>rect_x := v\<rparr>"
definition set_right :: "int \<Rightarrow> Rect \<Rightarrow> Rect" where
  "set_right v r = r\<lparr>rect_x := v - rect_w r\<rparr>"
definition set_bottom :: "int \<Rightarrow> Rect \<Rightarrow> Rect" where
  "set_bottom v r = r\<lparr>rect_y := v - rect_h r\<rparr>"

text \<open>\<^verbatim>\<open>Rect.colliderect\<close>: two rectangles of non-zero size overlap when their
  extents intersect strictly on both axes.\<close>

definition colliderect :: "Rect \<Rightarrow> Rect \<Rightarrow> bool" where
  "colliderect a b =
     (rect_w a \<noteq> 0 \<and> rect_h a \<noteq> 0 \<and> rect_w b \<noteq> 0 \<and> rect_h b \<noteq> 0 \<and>
      min (rect_x a) (rect_x a + rect_w a) < max (rect_x b) (rect_x b + rect_w b) \<and>
      min (rect_y a) (rect_y a + rect_h a) < max (rect_y b) (rect_y b + rect_h b) \<and>
      min (rect_x b) (rect_x b + rect_w b) < max (rect_x a) (rect_x a + rect_w a) \<and>
      min (rect_y b) (rect_y b + rect_h b) < max (rect_y a) (rect_y a + rect_h a))"


subsection \<open>Player and Platform\<close>

datatype sprite_image =
  idle_image | jump_image | fall_image | jump_balloon_image | fall_balloon_image

text \<open>\<open>active_upgrades\<close> is the dictionary \<^verbatim>\<open>{name: remaining_frames}\<close>, kept as an
  association list in insertion order, as a Python dict iterates.\<close>

type_synonym upgrades = "(string \<times> int) list"

record player =
  image :: sprite_image
  rect :: Rect
  vel_x :: int
  vel_y :: real
  on_ground :: bool
  fall_time :: int
  active_upgrades :: upgrades
  shield_active :: bool

definition Player :: "int \<Rightarrow> int \<Rightarrow> player" where
  "Player x y =
     \<lparr>image = idle_image,
      rect = \<lparr>rect_x = x, rect_y = y, rect_w = PLAYER_WIDTH, rect_h = PLAYER_HEIGHT\<rparr>,
      vel_x = 0, vel_y = 0, on_ground = True, fall_time = 0,
      active_upgrades = [], shield_active = False\<rparr>"

record platform =
  breakable :: bool
  deadly :: bool
  plat_rect :: Rect
  plat_x :: int
  plat_y :: int
  will_break :: bool

definition Platform :: "int \<Rightarrow> int \<Rightarrow> int \<Rightarrow> int \<Rightarrow> bool \<Rightarrow> bool \<Rightarrow> platform" where
  "Platform x y width height is_breakable is_deadly =
     \<lparr>breakable = is_breakable, deadly = is_deadly,
      plat_rect = \<lparr>rect_x = x, rect_y = y, rect_w = width, rect_h = 15\<rparr>,
      plat_x = x, plat_y = y, will_break = False\<rparr>"

subsection \<open>Player.handle_input\<close>

text \<open>The snapshot of held keys, restricted to the four keys the game reads.\<close>

record keys =
  K_LEFT :: bool
  K_a :: bool
  K_RIGHT :: bool
  K_d :: bool

definition handle_input :: "keys \<Rightarrow> player \<Rightarrow> player" where
  "handle_input ks p =
     (let p1 = p\<lparr>vel_x := 0\<rparr>;
          p2 = (if K_LEFT ks \<or> K_a ks then p1\<lparr>vel_x := - PLAYER_SPEED\<rparr> else p1)
      in (if K_RIGHT ks \<or> K_d ks then p2\<lparr>vel_x := PLAYER_SPEED\<rparr> else p2))"

subsection \<open>Player.jump and Player.update\<close>

definition jump :: "real \<Rightarrow> player \<Rightarrow> player" where
  "jump jump_mult p = p\<lparr>vel_y := real_of_int PLAYER_JUMP * jump_mult, fall_time := 0\<rparr>"

definition has_upgrade :: "string \<Rightarrow> player \<Rightarrow> bool" where
  "has_upgrade name p = (name \<in> set (map fst (active_upgrades p)))"

text \<open>Lines 127-132: the multipliers as modified by the active upgrades.\<close>

definition effective_gravity_mult :: "player \<Rightarrow> real \<Rightarrow> real" where
  "effective_gravity_mult p gravity_mult =
     (if has_upgrade ''Gravity Reduction'' p then gravity_mult * 0.5 else gravity_mult)"

definition effective_jump_mult :: "player \<Rightarrow> real \<Rightarrow> real" where
  "effective_jump_mult p jump_mult =
     (if has_upgrade ''Jump Boost'' p then jump_mult * 1.3 else jump_mult)"

text \<open>Lines 135-139: the speed modifier.\<close>

definition apply_speed_boost :: "player \<Rightarrow> player" where
  "apply_speed_boost p =
     (if has_upgrade ''Speed Boost'' p then
        (if vel_x p > 0 then p\<lparr>vel_x := py_int (real_of_int PLAYER_SPEED * 1.5)\<rparr>
         else if vel_x p < 0 then p\<lparr>vel_x := py_int (real_of_int (- PLAYER_SPEED) * 1.5)\<rparr>
         else p)
      else p)"

text \<open>Lines 142-148: every timer is decremented, the names whose timer is now \<open>\<le> 0\<close>
  are collected, and then deleted from the dictionary.\<close>

definition decrement_timers :: "upgrades \<Rightarrow> upgrades" where
  "decrement_timers ups = map (\<lambda>(name, t). (name, t - 1)) ups"

definition expired_names :: "upgrades \<Rightarrow> string list" where
  "expired_names ups = map fst (filter (\<lambda>(name, t). t \<le> 0) ups)"

definition tick_upgrades :: "upgrades \<Rightarrow> upgrades" where
  "tick_upgrades ups =
     (let ups1 = decrement_timers ups in fold AList.delete (expired_names ups1) ups1)"

text \<open>Lines 151-157: gravity, the move, and the reset of \<open>on_ground\<close>.\<close>

definition integrate :: "real \<Rightarrow> player \<Rightarrow> player" where
  "integrate gravity_mult p =
     (let vy = vel_y p + GRAVITY * gravity_mult;
          r = rect p;
          r1 = r\<lparr>rect_x := rect_x r + vel_x p\<rparr>;
          r2 = r1\<lparr>rect_y := py_int (real_of_int (rect_y r1) + vy)\<rparr>
      in p\<lparr>vel_y := vy, rect := r2, on_ground := False\<rparr>)"

text \<open>The player as it stands when the collision test of line 160 is reached.\<close>

definition before_collision :: "player \<Rightarrow> real \<Rightarrow> player" where
  "before_collision p gravity_mult =
     (let gm = effective_gravity_mult p gravity_mult;
          p1 = apply_speed_boost p;
          p2 = p1\<lparr>active_upgrades := tick_upgrades (active_upgrades p1)\<rparr>
      in integrate gm p2)"

text \<open>\<^verbatim>\<open>pygame.sprite.spritecollide(self, platforms, False)\<close>: the platforms of the
  group whose rect overlaps the player's, in the group's order. They are kept as
  indices into the group, since the loop mutates the platform it lands on.\<close>

definition spritecollide :: "player \<Rightarrow> platform list \<Rightarrow> nat list" where
  "spritecollide p platforms =
     filter (\<lambda>i. colliderect (rect p) (plat_rect (platforms ! i))) [0..<length platforms]"

text \<open>Lines 163-192: the loop over the hits. \<open>Died\<close> is the \<^verbatim>\<open>return True\<close> of line
  183, which leaves the loop and the function with nothing written.\<close>

datatype collision = Died | Resolved player "platform list"

definition bounce :: "real \<Rightarrow> platform \<Rightarrow> player \<Rightarrow> player" where
  "bounce jump_mult pl p =
     (jump jump_mult (p\<lparr>rect := set_bottom (rect_top (plat_rect pl)) (rect p)\<rparr>))
       \<lparr>on_ground := True\<rparr>"

fun land :: "real \<Rightarrow> nat list \<Rightarrow> player \<Rightarrow> platform list \<Rightarrow> collision" where
  "land jump_mult [] p platforms = Resolved p platforms"
| "land jump_mult (i # hits) p platforms =
     (let pl = platforms ! i in
      if rect_bottom (rect p) \<le> rect_bottom (plat_rect pl) then
        (if deadly pl then
           (if shield_active p then
              Resolved (bounce jump_mult pl (p\<lparr>shield_active := False\<rparr>)) platforms
            else if has_upgrade ''Invincibility'' p then
              Resolved (bounce jump_mult pl p) platforms
            else Died)
         else
           Resolved (bounce jump_mult pl p)
                    (platforms[i := pl\<lparr>will_break := breakable pl\<rparr>]))
      else land jump_mult hits p platforms)"

text \<open>Lines 195-198: the horizontal clamp.\<close>

definition clamp_to_screen :: "player \<Rightarrow> player" where
  "clamp_to_screen p =
     (let r = rect p;
          r1 = (if rect_left r < 0 then set_left 0 r else r);
          r2 = (if rect_right r1 > SCREEN_WIDTH then set_right SCREEN_WIDTH r1 else r1)
      in p\<lparr>rect := r2\<rparr>)"

text \<open>Lines 201-202: the fall timer.\<close>

definition track_fall :: "player \<Rightarrow> player" where
  "track_fall p = (if \<not> on_ground p then p\<lparr>fall_time := fall_time p + 1\<rparr> else p)"

text \<open>Lines 205-213: the sprite shown.\<close>

definition choose_image :: "player \<Rightarrow> player" where
  "choose_image p =
     (let has_balloon_upgrades =
            (has_upgrade ''Gravity Reduction'' p \<or> has_upgrade ''Jump Boost'' p)
      in if on_ground p then p\<lparr>image := idle_image\<rparr>
         else if vel_y p < 0 then
           p\<lparr>image := (if has_balloon_upgrades then jump_balloon_image else jump_image)\<rparr>
         else
           p\<lparr>image := (if has_balloon_upgrades then fall_balloon_image else fall_image)\<rparr>)"

text \<open>Lines 216-221: the two remaining death conditions.\<close>

definition fell_to_death :: "player \<Rightarrow> bool" where
  "fell_to_death p =
     (if fall_time p > 210 then True
      else if rect_top (rect p) > SCREEN_HEIGHT + 200 then True
      else False)"

text \<open>Lines 195-221, run after the collision loop unless line 183 returned.\<close>

definition after_collision :: "player \<Rightarrow> platform list \<Rightarrow> bool \<times> player \<times> platform list" where
  "after_collision p platforms =
     (let p1 = choose_image (track_fall (clamp_to_screen p))
      in (fell_to_death p1, p1, platforms))"

text \<open>\<^verbatim>\<open>Player.update\<close>: the result is the returned flag (\<open>True\<close>: the player died)
  with the player and the platform group as the call leaves them.\<close>

definition update ::
  "player \<Rightarrow> platform list \<Rightarrow> real \<Rightarrow> real \<Rightarrow> bool \<times> player \<times> platform list" where
  "update p platforms gravity_mult jump_mult =
     (let jm = effective_jump_mult p jump_mult;
          q = before_collision p gravity_mult
      in if vel_y q > 0 then
           (case land jm (spritecollide q platforms) q platforms of
              Died \<Rightarrow> (True, q, platforms)
            | Resolved q' platforms' \<Rightarrow> after_collision q' platforms')
         else after_collision q platforms)"

subsection \<open>Orbs and their collection (main, lines 621-629)\<close>

record upgrade =
  name :: string
  duration :: int

definition UPGRADES :: "upgrade list" where
  "UPGRADES =
     [\<lparr>name = ''Jump Boost'', duration = 900\<rparr>,
      \<lparr>name = ''Speed Boost'', duration = 900\<rparr>,
      \<lparr>name = ''Invincibility'', duration = 900\<rparr>,
      \<lparr>name = ''Gravity Reduction'', duration = 900\<rparr>,
      \<lparr>name = ''Shield'', duration = 0\<rparr>]"

record orb =
  orb_upgrade :: upgrade
  orb_size :: int
  orb_rect :: Rect

text \<open>\<^verbatim>\<open>Orb.__init__\<close>, with the upgrade that \<^verbatim>\<open>random.choice\<close> gave.\<close>

definition Orb :: "upgrade \<Rightarrow> int \<Rightarrow> int \<Rightarrow> orb" where
  "Orb u x y =
     \<lparr>orb_upgrade = u, orb_size = 20,
      orb_rect = \<lparr>rect_x = x + 100, rect_y = y - 50, rect_w = 20 * 2, rect_h = 20 * 2\<rparr>\<rparr>"

definition collect_orb :: "orb \<Rightarrow> player \<Rightarrow> player" where
  "collect_orb ob p =
     (if name (orb_upgrade ob) = ''Shield'' then p\<lparr>shield_active := True\<rparr>
      else p\<lparr>active_upgrades :=
               AList.update (name (orb_upgrade ob)) (duration (orb_upgrade ob))
                 (active_upgrades p)\<rparr>)"

definition collect_orbs :: "orb list \<Rightarrow> player \<Rightarrow> player" where
  "collect_orbs collected_orbs p = fold collect_orb collected_orbs p"

subsection \<open>get_difficulty_modifiers\<close>

definition get_difficulty_modifiers :: "int \<Rightarrow> real \<times> real \<times> real \<times> int" where
  "get_difficulty_modifiers score =
     (let difficulty_level = score div SCORE_PER_DIFFICULTY;
          gravity_mult = 1.0 + (real_of_int difficulty_level * 0.05);
          jump_mult = max 0.85 (1.0 - (real_of_int difficulty_level * 0.02));
          gap_mult = 1.0 + (real_of_int difficulty_level * 0.03)
      in (gravity_mult, jump_mult, gap_mult, difficulty_level))"

text \<open>The scaler as the specification words it, for comparison with the code.\<close>

definition scale_spec :: "int \<Rightarrow> real \<times> real \<times> real \<times> int" where
  "scale_spec score =
     (let level = \<lfloor>real_of_int score / 500\<rfloor>
      in (1 + 0.05 * real_of_int level,
          max 0.85 (1 - 0.02 * real_of_int level),
          1 + 0.03 * real_of_int level,
          level))"

subsection \<open>The random module\<close>

text \<open>The generator of \<^verbatim>\<open>random\<close> is a script of the results it is going to give:
  one sequence per function called. A call takes the next result of its sequence. A
  result the function cannot give (outside the bounds of \<^verbatim>\<open>randint\<close>, outside
  \<open>[0, 1)\<close> for \<^verbatim>\<open>random\<close>, not an index of the table for \<^verbatim>\<open>choice\<close>) and an
  exhausted sequence both end the run with \<open>None\<close>.\<close>

record rng =
  randint_results :: "int list"
  random_results :: "real list"
  choice_results :: "nat list"

definition random_randint :: "int \<Rightarrow> int \<Rightarrow> rng \<Rightarrow> (int \<times> rng) option" where
  "random_randint a b g =
     (case randint_results g of
        [] \<Rightarrow> None
      | v # vs \<Rightarrow> if a \<le> v \<and> v \<le> b then Some (v, g\<lparr>randint_results := vs\<rparr>) else None)"

definition random_random :: "rng \<Rightarrow> (real \<times> rng) option" where
  "random_random g =
     (case random_results g of
        [] \<Rightarrow> None
      | v # vs \<Rightarrow> if 0 \<le> v \<and> v < 1 then Some (v, g\<lparr>random_results := vs\<rparr>) else None)"

definition random_choice :: "'a list \<Rightarrow> rng \<Rightarrow> ('a \<times> rng) option" where
  "random_choice xs g =
     (case choice_results g of
        [] \<Rightarrow> None
      | i # is \<Rightarrow> if i < length xs then Some (xs ! i, g\<lparr>choice_results := is\<rparr>) else None)"

subsection \<open>The platform generator (main, lines 484-524 and 579-599)\<close>

definition num_platforms :: nat where "num_platforms = 13"
definition min_gap :: int where "min_gap = 60"
definition max_gap :: int where "max_gap = 100"
definition min_horizontal_gap :: int where "min_horizontal_gap = 200"

text \<open>The locals of \<^verbatim>\<open>main\<close> that the generator reads and writes.\<close>

record chain =
  last_x :: int
  platform_height :: int
  highest_platform_y :: int
  platforms :: "platform list"
  orbs :: "orb list"
  rng :: rng

text \<open>Lines 503-506 and 583-585: a position is drawn, and drawn again while it is
  closer than \<open>min_horizontal_gap\<close> to the previous one. The loop runs on the results
  that \<^verbatim>\<open>randint(0, SCREEN_WIDTH - 120)\<close> is going to give.\<close>

fun draw_x :: "int \<Rightarrow> int list \<Rightarrow> (int \<times> int list) option" where
  "draw_x lastx [] = None"
| "draw_x lastx (v # vs) =
     (if 0 \<le> v \<and> v \<le> SCREEN_WIDTH - 120 then
        (if \<bar>v - lastx\<bar> < min_horizontal_gap then draw_x lastx vs else Some (v, vs))
      else None)"

definition random_x :: "int \<Rightarrow> rng \<Rightarrow> (int \<times> rng) option" where
  "random_x lastx g =
     map_option (\<lambda>(x, vs). (x, g\<lparr>randint_results := vs\<rparr>)) (draw_x lastx (randint_results g))"

text \<open>Lines 522-524 and 597-599: the orb roll. \<^verbatim>\<open>random.random()\<close> is called first,
  whatever \<open>is_deadly\<close> is.\<close>

definition spawn_orb :: "bool \<Rightarrow> int \<Rightarrow> int \<Rightarrow> orb list \<Rightarrow> rng \<Rightarrow> (orb list \<times> rng) option" where
  "spawn_orb is_deadly x y obs g =
     (case random_random g of
        None \<Rightarrow> None
      | Some (r, g1) \<Rightarrow>
          if r < 0.1 \<and> \<not> is_deadly then
            (case random_choice UPGRADES g1 of
               None \<Rightarrow> None
             | Some (u, g2) \<Rightarrow> Some (obs @ [Orb u x y], g2))
          else Some (obs, g1))"

text \<open>Lines 502-524: the body of the initial loop.\<close>

definition seed_platform :: "chain \<Rightarrow> chain option" where
  "seed_platform c =
     (case random_x (last_x c) (rng c) of
        None \<Rightarrow> None
      | Some (x, g1) \<Rightarrow>
     (case random_randint min_gap max_gap g1 of
        None \<Rightarrow> None
      | Some (gap, g2) \<Rightarrow>
     (case random_random g2 of
        None \<Rightarrow> None
      | Some (r, g3) \<Rightarrow>
          let h0 = platform_height c - gap;
              h = (if h0 < 100 then 100 else h0);
              is_breakable = (r < 0.3);
              is_deadly = False;
              pl = Platform x h 220 200 is_breakable is_deadly
          in (case spawn_orb is_deadly x h (orbs c) g3 of
                None \<Rightarrow> None
              | Some (obs, g4) \<Rightarrow>
                  Some (c\<lparr>last_x := x, platform_height := h, highest_platform_y := h,
                          platforms := platforms c @ [pl], orbs := obs, rng := g4\<rparr>)))))"

text \<open>Lines 582-599: the body of the loop of a later batch.\<close>

definition extend_platform :: "real \<Rightarrow> int \<Rightarrow> chain \<Rightarrow> chain option" where
  "extend_platform gap_mult current_difficulty c =
     (case random_x (last_x c) (rng c) of
        None \<Rightarrow> None
      | Some (x, g1) \<Rightarrow>
     (case random_randint 0 (py_int (real_of_int (max_gap - min_gap))) g1 of
        None \<Rightarrow> None
      | Some (n, g2) \<Rightarrow>
     (case random_random g2 of
        None \<Rightarrow> None
      | Some (r, g3) \<Rightarrow>
     (case (if current_difficulty \<ge> 3
            then map_option (\<lambda>(d, g). (d < 0.08, g)) (random_random g3)
            else Some (False, g3)) of
        None \<Rightarrow> None
      | Some (is_deadly, g4) \<Rightarrow>
          let adjusted_gap = py_int (real_of_int min_gap + real_of_int n * gap_mult);
              y = highest_platform_y c - adjusted_gap;
              is_breakable = (r < 0.3);
              pl = Platform x y 220 200 is_breakable is_deadly
          in (case spawn_orb is_deadly x y (orbs c) g4 of
                None \<Rightarrow> None
              | Some (obs, g5) \<Rightarrow>
                  Some (c\<lparr>last_x := x, highest_platform_y := y,
                          platforms := platforms c @ [pl], orbs := obs, rng := g5\<rparr>))))))"

text \<open>\<^verbatim>\<open>for _ in range(n)\<close> over a body that may run out of random results.\<close>

fun for_range :: "nat \<Rightarrow> (chain \<Rightarrow> chain option) \<Rightarrow> chain \<Rightarrow> chain option" where
  "for_range 0 body c = Some c"
| "for_range (Suc n) body c =
     (case body c of None \<Rightarrow> None | Some c' \<Rightarrow> for_range n body c')"

text \<open>Lines 484-495: the ground platform and the locals before the initial loop.\<close>

definition initial_chain :: "rng \<Rightarrow> chain" where
  "initial_chain g =
     \<lparr>last_x = SCREEN_WIDTH div 2,
      platform_height = SCREEN_HEIGHT - 200,
      highest_platform_y = SCREEN_HEIGHT - 200,
      platforms = [Platform 0 (SCREEN_HEIGHT - 100) SCREEN_WIDTH 300 False False],
      orbs = [],
      rng = g\<rparr>"

definition seed_platforms :: "rng \<Rightarrow> chain option" where
  "seed_platforms g = for_range num_platforms seed_platform (initial_chain g)"

definition extend_platforms :: "real \<Rightarrow> int \<Rightarrow> chain \<Rightarrow> chain option" where
  "extend_platforms gap_mult current_difficulty c =
     for_range 5 (extend_platform gap_mult current_difficulty) c"

text \<open>A run of the generator: the batches that follow the seeding, each with the
  \<open>gap_mult\<close> and the level that \<^verbatim>\<open>get_difficulty_modifiers\<close> gave in its tick.\<close>

fun run_batches :: "(real \<times> int) list \<Rightarrow> chain \<Rightarrow> chain option" where
  "run_batches [] c = Some c"
| "run_batches ((gap_mult, current_difficulty) # bs) c =
     (case extend_platforms gap_mult current_difficulty c of
        None \<Rightarrow> None
      | Some c' \<Rightarrow> run_batches bs c')"

text \<open>Consecutive positions, from a previous one on, at least \<open>min_horizontal_gap\<close> apart.\<close>

fun spaced :: "int \<Rightarrow> int list \<Rightarrow> bool" where
  "spaced prev [] = True"
| "spaced prev (x # xs) = (\<bar>x - prev\<bar> \<ge> min_horizontal_gap \<and> spaced x xs)"

subsection \<open>The high score file\<close>

text \<open>What \<^verbatim>\<open>json.load\<close> returns: a Python value.\<close>

datatype json =
  JNull | JBool bool | JInt int | JFloat real | JString string
  | JArray "json list" | JObject "(string \<times> json) list"

text \<open>The text of \<^verbatim>\<open>high_score.json\<close>, seen through \<^verbatim>\<open>json.load\<close>: text that
  does not parse, or the value it parses to.\<close>

datatype content = Malformed | Document json

text \<open>The file system as the two functions meet it: the file (\<open>None\<close>: it does not
  exist), and whether opening it for reading, opening it for writing and writing to
  it succeed; each raises \<^verbatim>\<open>IOError\<close> otherwise.\<close>

record store =
  high_score_file :: "content option"
  can_open_read :: bool
  can_open_write :: bool
  can_write :: bool

datatype py_exception = AttributeError

text \<open>\<^verbatim>\<open>load_high_score\<close>: \<open>Inr\<close> is the value returned, \<open>Inl\<close> an exception that
  leaves the function. The \<^verbatim>\<open>except\<close> clause catches \<^verbatim>\<open>JSONDecodeError\<close> and
  \<^verbatim>\<open>IOError\<close>; \<^verbatim>\<open>data.get\<close> on a value that is not a dict raises
  \<^verbatim>\<open>AttributeError\<close>, which it does not catch.\<close>

definition load_high_score :: "store \<Rightarrow> py_exception + json" where
  "load_high_score s =
     (case high_score_file s of
        None \<Rightarrow> Inr (JInt 0)
      | Some c \<Rightarrow>
          if \<not> can_open_read s then Inr (JInt 0)
          else (case c of
                  Malformed \<Rightarrow> Inr (JInt 0)
                | Document (JObject d) \<Rightarrow>
                    Inr (case map_of d ''high_score'' of None \<Rightarrow> JInt 0 | Some v \<Rightarrow> v)
                | Document _ \<Rightarrow> Inl AttributeError))"

text \<open>\<^verbatim>\<open>save_high_score\<close>: opening with mode \<^verbatim>\<open>'w'\<close> truncates the file; a write
  that fails leaves it without a document.\<close>

definition save_high_score :: "int \<Rightarrow> store \<Rightarrow> store" where
  "save_high_score score s =
     (if \<not> can_open_write s then s
      else if \<not> can_write s then s\<lparr>high_score_file := Some Malformed\<rparr>
      else s\<lparr>high_score_file := Some (Document (JObject [(''high_score'', JInt score)]))\<rparr>)"

subsection \<open>The invariant of the upgrade dictionary\<close>

text \<open>A dictionary has each key once; every remaining duration is positive.\<close>

definition upgrades_ok :: "upgrades \<Rightarrow> bool" where
  "upgrades_ok ups = (distinct (map fst ups) \<and> list_all (\<lambda>(name, t). 0 < t) ups)"

subsection \<open>Landing, and the parts of update's result\<close>

text \<open>The platform the player lands on: the first of the hits, in the group's order,
  whose bottom edge is not above the player's (line 165).\<close>

definition approached_from_above :: "player \<Rightarrow> platform list \<Rightarrow> nat \<Rightarrow> bool" where
  "approached_from_above q pls i =
     (rect_bottom (rect q) \<le> rect_bottom (plat_rect (pls ! i)))"




subsection \<open>Example states\<close>







subsection \<open>One step of the generator, and an example run\<close>

text \<open>What one pass through either loop body does to the chain: one platform is
  appended, at least \<open>min_horizontal_gap\<close> from the previous position, which it
  replaces; \<open>Q\<close> is what else is known of the platform.\<close>

definition step_ok :: "(platform \<Rightarrow> bool) \<Rightarrow> chain \<Rightarrow> chain \<Rightarrow> bool" where
  "step_ok Q c c' =
     (\<exists>pl. platforms c' = platforms c @ [pl] \<and> \<bar>plat_x pl - last_x c\<bar> \<ge> min_horizontal_gap
           \<and> last_x c' = plat_x pl \<and> Q pl)"

text \<open>A script of random results: the seeding (whose first position, 500, is rejected),
  then one batch. The batches below run at level 0, and at level 3 with the \<open>gap_mult\<close>
  that \<open>get_difficulty_modifiers\<close> gives at score 1500.\<close>

definition example_rng :: rng where
  "example_rng =
     \<lparr>randint_results =
        [500, 0, 80, 904, 80, 0, 80, 904, 80, 0, 80, 904, 80, 0, 80, 904, 80, 0, 80, 904, 80,
         0, 80, 904, 80, 0, 80,
         904, 20, 0, 20, 904, 20, 0, 20, 904, 20],
      random_results =
        [0.2, 0.05, 0.5, 0.5, 0.5, 0.5, 0.5, 0.5, 0.5, 0.5, 0.5, 0.5, 0.5, 0.5, 0.5, 0.5,
         0.5, 0.5, 0.5, 0.5, 0.5, 0.5, 0.5, 0.5, 0.5, 0.5,
         0.1, 0.01, 0.5, 0.5, 0.5, 0.5, 0.5, 0.5, 0.5, 0.5, 0.5, 0.5, 0.5, 0.5, 0.5],
      choice_results = [4, 0]\<rparr>"

definition example_seeded :: chain where
  "example_seeded = the (seed_platforms example_rng)"

definition example_level0_batch :: "chain option" where
  "example_level0_batch = extend_platforms 1.0 0 example_seeded"

definition example_level3_batch :: "chain option" where
  "example_level3_batch = run_batches [(1.09, 3)] example_seeded"

section \<open>Properties\<close>

subsection \<open>What the phases of update keep\<close>

lemma land_keeps:
  "land jm hits p pls = Resolved p' pls' \<Longrightarrow>
     vel_x p' = vel_x p \<and> active_upgrades p' = active_upgrades p"
  by (induction hits) (auto simp: bounce_def jump_def Let_def split: if_splits)

lemma after_collision_keeps:
  "vel_x (fst (snd (after_collision p pls))) = vel_x p"
  "active_upgrades (fst (snd (after_collision p pls))) = active_upgrades p"
  by (simp_all add: after_collision_def choose_image_def track_fall_def clamp_to_screen_def Let_def)

lemma before_collision_vel_x: "vel_x (before_collision p g) = vel_x (apply_speed_boost p)"
  by (simp add: before_collision_def integrate_def Let_def)

lemma before_collision_upgrades:
  "active_upgrades (before_collision p g) = tick_upgrades (active_upgrades p)"
  by (simp add: before_collision_def integrate_def apply_speed_boost_def Let_def)

lemma update_vel_x: "vel_x (fst (snd (update p pls g j))) = vel_x (apply_speed_boost p)"
  by (auto simp: update_def Let_def after_collision_keeps before_collision_vel_x
      split: collision.splits dest: land_keeps)

lemma update_upgrades:
  "active_upgrades (fst (snd (update p pls g j))) = tick_upgrades (active_upgrades p)"
  by (auto simp: update_def Let_def after_collision_keeps before_collision_upgrades
      split: collision.splits dest: land_keeps)

subsection \<open>Input and horizontal speed\<close>

text \<open>
  C10. When a left key (LEFT or A) and a right key (RIGHT or D) are held together,
  \<open>handle_input\<close> leaves the horizontal velocity at \<open>+PLAYER_SPEED\<close>: the right-key test
  runs second and overwrites. When neither is held the velocity is 0.
\<close>

theorem handle_input_both_keys:
  "((K_LEFT ks \<or> K_a ks) \<and> (K_RIGHT ks \<or> K_d ks) \<longrightarrow>
       vel_x (handle_input ks p) = PLAYER_SPEED) \<and>
   (\<not> (K_LEFT ks \<or> K_a ks) \<and> \<not> (K_RIGHT ks \<or> K_d ks) \<longrightarrow>
       vel_x (handle_input ks p) = 0)"
  by (simp add: handle_input_def Let_def)

theorem handle_input_both_keys_witness:
  "vel_x (handle_input \<lparr>K_LEFT = True, K_a = False, K_RIGHT = True, K_d = False\<rparr>
            (Player 512 384)) = 7
   \<and> vel_x (handle_input \<lparr>K_LEFT = False, K_a = False, K_RIGHT = False, K_d = False\<rparr>
               ((Player 512 384)\<lparr>vel_x := 7\<rparr>)) = 0"
  using handle_input_both_keys
          [of "\<lparr>K_LEFT = True, K_a = False, K_RIGHT = True, K_d = False\<rparr>" "Player 512 384"]
        handle_input_both_keys
          [of "\<lparr>K_LEFT = False, K_a = False, K_RIGHT = False, K_d = False\<rparr>"
              "(Player 512 384)\<lparr>vel_x := 7\<rparr>"]
  by (simp add: PLAYER_SPEED_def)

text \<open>
  C5, as the claim states it, fails: with Speed Boost active and the right key held, the
  horizontal velocity after the update is \<open>int(7 * 1.5) = 10\<close>, not \<open>1 * 7 * 1.5 = 10.5\<close>.
\<close>

theorem speed_boost_counterexample:
  "real_of_int (vel_x (fst (snd (update
      (handle_input \<lparr>K_LEFT = False, K_a = False, K_RIGHT = True, K_d = False\<rparr>
         ((Player 512 384)\<lparr>active_upgrades := [(''Speed Boost'', 900)]\<rparr>)) [] 1 1))))
   \<noteq> 1 * real_of_int PLAYER_SPEED * 1.5"
  by (simp add: update_vel_x apply_speed_boost_def has_upgrade_def Player_def handle_input_def
      Let_def py_int_def PLAYER_SPEED_def)

text \<open>
  C5, amended. In a tick in which Speed Boost is among the active upgrades, the horizontal
  velocity after the update is the direction of the raw input (\<open>-1\<close>, \<open>0\<close> or \<open>1\<close>) times
  \<open>int(PLAYER_SPEED * 1.5)\<close>, the product truncated towards zero, which is 10 for
  \<open>PLAYER_SPEED = 7\<close>; with no directional key held it stays 0.
\<close>

theorem speed_boost_truncated:
  assumes "has_upgrade ''Speed Boost'' p"
  shows "vel_x (fst (snd (update (handle_input ks p) pls g j)))
           = sgn (vel_x (handle_input ks p)) * py_int (real_of_int PLAYER_SPEED * 1.5)
         \<and> py_int (real_of_int PLAYER_SPEED * 1.5) = 10
         \<and> (\<not> (K_LEFT ks \<or> K_a ks) \<and> \<not> (K_RIGHT ks \<or> K_d ks) \<longrightarrow>
              vel_x (fst (snd (update (handle_input ks p) pls g j))) = 0)"
proof -
  have h: "has_upgrade ''Speed Boost'' (handle_input ks p)"
    using assms by (simp add: has_upgrade_def handle_input_def Let_def)
  have v: "vel_x (handle_input ks p) =
             (if K_RIGHT ks \<or> K_d ks then 7 else if K_LEFT ks \<or> K_a ks then - 7 else 0)"
    by (simp add: handle_input_def Let_def PLAYER_SPEED_def)
  have u: "vel_x (fst (snd (update (handle_input ks p) pls g j)))
             = (if K_RIGHT ks \<or> K_d ks then 10 else if K_LEFT ks \<or> K_a ks then - 10 else 0)"
    using h by (simp add: update_vel_x apply_speed_boost_def v)
      (simp add: py_int_def PLAYER_SPEED_def)
  have s: "py_int (real_of_int PLAYER_SPEED * 1.5) = 10"
    by (simp add: py_int_def PLAYER_SPEED_def)
  show ?thesis
    unfolding u v s by simp
qed

theorem speed_boost_truncated_witness:
  "vel_x (fst (snd (update
      (handle_input \<lparr>K_LEFT = True, K_a = False, K_RIGHT = False, K_d = False\<rparr>
         ((Player 512 384)\<lparr>active_upgrades := [(''Speed Boost'', 900)]\<rparr>)) [] 1 1))) = - 10"
  using speed_boost_truncated
          [of "(Player 512 384)\<lparr>active_upgrades := [(''Speed Boost'', 900)]\<rparr>"
              "\<lparr>K_LEFT = True, K_a = False, K_RIGHT = False, K_d = False\<rparr>" "[]" 1 1]
  by (simp add: has_upgrade_def Player_def handle_input_def Let_def PLAYER_SPEED_def)

subsection \<open>Upgrade timers\<close>

lemma map_of_decrement_timers:
  "map_of (decrement_timers ups) k = map_option (\<lambda>t. t - 1) (map_of ups k)"
  by (induction ups) (auto simp: decrement_timers_def)

lemma keys_decrement_timers: "map fst (decrement_timers ups) = map fst ups"
  by (induction ups) (auto simp: decrement_timers_def)

lemma map_of_fold_delete:
  "map_of (fold AList.delete ks xs) k = (if k \<in> set ks then None else map_of xs k)"
  by (induction ks arbitrary: xs) (auto simp: AList.delete_conv)

lemma distinct_fold_delete:
  "distinct (map fst xs) \<Longrightarrow> distinct (map fst (fold AList.delete ks xs))"
  by (induction ks arbitrary: xs) (auto simp: AList.distinct_delete)

lemma set_fold_delete: "set (fold AList.delete ks xs) \<subseteq> set xs"
proof (induction ks arbitrary: xs)
  case Nil then show ?case by simp
next
  case (Cons a ks)
  have "set (fold AList.delete ks (AList.delete a xs)) \<subseteq> set (AList.delete a xs)"
    by (rule Cons.IH)
  also have "\<dots> \<subseteq> set xs" by (auto simp: AList.delete_eq)
  finally show ?case by simp
qed

lemma expired_names_iff:
  "distinct (map fst ups) \<Longrightarrow>
     k \<in> set (expired_names ups) \<longleftrightarrow> (\<exists>t. map_of ups k = Some t \<and> t \<le> 0)"
  by (force simp: expired_names_def)

lemma map_of_tick_upgrades:
  assumes "distinct (map fst ups)"
  shows "map_of (tick_upgrades ups) k =
           (case map_of ups k of None \<Rightarrow> None
            | Some t \<Rightarrow> if t - 1 \<le> 0 then None else Some (t - 1))"
proof -
  have d: "distinct (map fst (decrement_timers ups))"
    using assms by (simp add: keys_decrement_timers)
  show ?thesis
    by (simp add: tick_upgrades_def Let_def map_of_fold_delete expired_names_iff [OF d]
        map_of_decrement_timers split: option.splits)
qed

lemma distinct_tick_upgrades:
  "distinct (map fst ups) \<Longrightarrow> distinct (map fst (tick_upgrades ups))"
  by (simp add: tick_upgrades_def Let_def distinct_fold_delete keys_decrement_timers)

lemma positive_tick_upgrades:
  assumes "distinct (map fst ups)" and "(k, t) \<in> set (tick_upgrades ups)"
  shows "0 < t"
proof -
  have "map_of (tick_upgrades ups) k = Some t"
    using assms distinct_tick_upgrades by (simp add: map_of_eq_Some_iff)
  then show ?thesis
    using assms(1) by (auto simp: map_of_tick_upgrades split: option.splits if_splits)
qed

lemma upgrades_ok_tick: "distinct (map fst ups) \<Longrightarrow> upgrades_ok (tick_upgrades ups)"
  by (auto simp: upgrades_ok_def distinct_tick_upgrades list_all_iff dest: positive_tick_upgrades)

lemma upgrades_ok_update:
  "upgrades_ok ups \<Longrightarrow> 0 < t \<Longrightarrow> upgrades_ok (AList.update k t ups)"
proof -
  assume ok: "upgrades_ok ups" and t: "0 < t"
  have d: "distinct (map fst (AList.update k t ups))"
    using ok by (simp add: upgrades_ok_def AList.distinct_update)
  have "0 < t'" if "(k', t') \<in> set (AList.update k t ups)" for k' t'
  proof -
    have "map_of (AList.update k t ups) k' = Some t'"
      using that d by simp
    then have "(if k' = k then Some t else map_of ups k') = Some t'"
      by (simp add: AList.update_conv')
    then show ?thesis
      using ok t by (auto simp: upgrades_ok_def list_all_iff split: if_splits dest: map_of_SomeD)
  qed
  then show ?thesis
    using d by (auto simp: upgrades_ok_def list_all_iff)
qed

lemma timed_upgrade:
  "u \<in> set UPGRADES \<Longrightarrow> name u \<noteq> ''Shield'' \<Longrightarrow> duration u = 900"
  by (auto simp: UPGRADES_def)

lemma upgrades_ok_positive:
  "upgrades_ok ups \<Longrightarrow> map_of ups k = Some t \<Longrightarrow> 0 < t"
  by (auto simp: upgrades_ok_def list_all_iff dest: map_of_SomeD)

text \<open>
  C6. In every tick each timed upgrade's remaining duration goes down by exactly 1, and
  the entry leaves the dictionary in the tick in which it reaches 0, not before and not
  after; an absent entry stays absent. No entry with a zero or negative duration is left
  after an update or after a pick-up, and none is there for a new player. Picking up an
  orb of a timed kind, active or not, sets its entry to the full duration 900.
\<close>

theorem upgrade_timers:
  assumes ok: "upgrades_ok (active_upgrades p)"
    and u: "u \<in> set UPGRADES" "name u \<noteq> ''Shield''"
  shows "map_of (active_upgrades (fst (snd (update p pls g j)))) k =
           (case map_of (active_upgrades p) k of
              None \<Rightarrow> None
            | Some t \<Rightarrow> if t - 1 = 0 then None else Some (t - 1))
         \<and> upgrades_ok (active_upgrades (fst (snd (update p pls g j))))
         \<and> map_of (active_upgrades (collect_orb (Orb u x y) p)) (name u) = Some 900
         \<and> upgrades_ok (active_upgrades (collect_orb (Orb u x y) p))
         \<and> upgrades_ok (active_upgrades (Player x y))"
proof -
  have d: "distinct (map fst (active_upgrades p))"
    using ok by (simp add: upgrades_ok_def)
  have a: "map_of (active_upgrades (fst (snd (update p pls g j)))) k =
           (case map_of (active_upgrades p) k of
              None \<Rightarrow> None
            | Some t \<Rightarrow> if t - 1 = 0 then None else Some (t - 1))"
    using upgrades_ok_positive [OF ok, of k]
    by (auto simp: update_upgrades map_of_tick_upgrades [OF d] split: option.splits)
  have b: "upgrades_ok (active_upgrades (fst (snd (update p pls g j))))"
    by (simp add: update_upgrades upgrades_ok_tick [OF d])
  have dur: "duration u = 900"
    using u by (rule timed_upgrade)
  have c: "map_of (active_upgrades (collect_orb (Orb u x y) p)) (name u) = Some 900"
    using u(2) by (simp add: collect_orb_def Orb_def AList.update_conv' dur)
  have e: "upgrades_ok (active_upgrades (collect_orb (Orb u x y) p))"
    using u(2) ok by (simp add: collect_orb_def Orb_def dur upgrades_ok_update)
  have f: "upgrades_ok (active_upgrades (Player x y))"
    by (simp add: Player_def upgrades_ok_def)
  show ?thesis using a b c e f by blast
qed

theorem upgrade_timers_witness:
  "map_of (active_upgrades (fst (snd (update
      ((Player 512 384)\<lparr>active_upgrades := [(''Jump Boost'', 1), (''Speed Boost'', 2)]\<rparr>)
      [] 1 1)))) ''Jump Boost'' = None
   \<and> map_of (active_upgrades (collect_orb (Orb \<lparr>name = ''Speed Boost'', duration = 900\<rparr> 0 0)
        ((Player 512 384)\<lparr>active_upgrades := [(''Jump Boost'', 1), (''Speed Boost'', 2)]\<rparr>)))
        ''Speed Boost'' = Some 900"
  using upgrade_timers
     [of "(Player 512 384)\<lparr>active_upgrades := [(''Jump Boost'', 1), (''Speed Boost'', 2)]\<rparr>"
         "\<lparr>name = ''Speed Boost'', duration = 900\<rparr>" "[]" 1 1 "''Jump Boost''" 0 0]
  by (simp add: upgrades_ok_def Player_def UPGRADES_def)

subsection \<open>Difficulty\<close>

text \<open>
  C8. \<open>get_difficulty_modifiers\<close> is the scaler of the specification: level
  \<open>floor(score/500)\<close>, gravity \<open>1 + 0.05 * level\<close>, jump \<open>max(0.85, 1 - 0.02 * level)\<close>,
  gap \<open>1 + 0.03 * level\<close>. It gives \<open>(1.0, 1.0, 1.0, 0)\<close> at score 0 and
  \<open>(1.05, 0.98, 1.03, 1)\<close> at score 500, and its jump multiplier is at least 0.85 at
  every score.
\<close>

theorem difficulty_scaler:
  "get_difficulty_modifiers score = scale_spec score
   \<and> get_difficulty_modifiers 0 = (1.0, 1.0, 1.0, 0)
   \<and> get_difficulty_modifiers 500 = (1.05, 0.98, 1.03, 1)
   \<and> 0.85 \<le> fst (snd (get_difficulty_modifiers score))"
proof -
  have l: "\<lfloor>real_of_int score / 500\<rfloor> = score div 500"
    using floor_divide_of_int_eq [of score 500, where ?'a = real] by simp
  have a: "get_difficulty_modifiers score = scale_spec score"
    by (simp add: get_difficulty_modifiers_def scale_spec_def Let_def l SCORE_PER_DIFFICULTY_def
        mult.commute)
  have b: "get_difficulty_modifiers 0 = (1.0, 1.0, 1.0, 0)"
    by (simp add: get_difficulty_modifiers_def Let_def SCORE_PER_DIFFICULTY_def)
  have c: "get_difficulty_modifiers 500 = (1.05, 0.98, 1.03, 1)"
    by (simp add: get_difficulty_modifiers_def Let_def SCORE_PER_DIFFICULTY_def)
  have d: "0.85 \<le> fst (snd (get_difficulty_modifiers score))"
    by (simp add: get_difficulty_modifiers_def Let_def)
  show ?thesis using a b c d by blast
qed

subsection \<open>The high score file\<close>

lemma save_then_load:
  "can_open_write s \<Longrightarrow> can_write s \<Longrightarrow> can_open_read s \<Longrightarrow>
     load_high_score (save_high_score score s) = Inr (JInt score)"
  by (simp add: load_high_score_def save_high_score_def)

lemma load_without_file:
  "high_score_file s = None \<Longrightarrow> load_high_score s = Inr (JInt 0)"
  by (simp add: load_high_score_def)

lemma load_swallows_io_and_decode_errors:
  "\<not> can_open_read s \<or> high_score_file s = Some Malformed \<Longrightarrow> load_high_score s = Inr (JInt 0)"
  by (auto simp: load_high_score_def split: option.splits)

text \<open>
  C9. A failure on read is not always swallowed: when \<^verbatim>\<open>high_score.json\<close> holds JSON
  that is not an object (here the empty array), \<^verbatim>\<open>data.get\<close> raises
  \<^verbatim>\<open>AttributeError\<close>, which the \<^verbatim>\<open>except\<close> clause of \<open>load_high_score\<close> does not
  catch.
\<close>

theorem load_high_score_not_a_dict:
  "load_high_score \<lparr>high_score_file = Some (Document (JArray [])), can_open_read = True,
                     can_open_write = True, can_write = True\<rparr> = Inl AttributeError"
  by (simp add: load_high_score_def)

subsection \<open>Collision resolution\<close>





lemma land_none:
  "List.find (approached_from_above q pls) hits = None \<Longrightarrow> land jm hits q pls = Resolved q pls"
  by (induction hits) (auto simp: approached_from_above_def Let_def split: if_splits)






























subsection \<open>The platform generator\<close>

lemma draw_x_spaced:
  "draw_x lastx vs = Some (x, rest) \<Longrightarrow> \<bar>x - lastx\<bar> \<ge> min_horizontal_gap"
  by (induction vs) (auto split: if_splits)

lemma draw_x_returns:
  assumes "\<forall>v \<in> set vs. 0 \<le> v \<and> v \<le> SCREEN_WIDTH - 120"
    and "\<exists>v \<in> set vs. \<bar>v - lastx\<bar> \<ge> min_horizontal_gap"
  shows "\<exists>x rest. draw_x lastx vs = Some (x, rest)"
  using assms by (induction vs) auto

lemma far_position_exists:
  "\<exists>v. 0 \<le> v \<and> v \<le> SCREEN_WIDTH - 120 \<and> \<bar>v - lastx\<bar> \<ge> min_horizontal_gap"
proof (cases "lastx \<ge> 200")
  case True
  then show ?thesis
    by (intro exI [of _ 0]) (simp add: SCREEN_WIDTH_def min_horizontal_gap_def)
next
  case False
  then show ?thesis
    by (intro exI [of _ 904]) (simp add: SCREEN_WIDTH_def min_horizontal_gap_def)
qed

lemma random_x_spaced:
  "random_x lastx g = Some (x, g') \<Longrightarrow> \<bar>x - lastx\<bar> \<ge> min_horizontal_gap"
  by (auto simp: random_x_def dest: draw_x_spaced)

lemma seed_platform_step:
  "seed_platform c = Some c' \<Longrightarrow> step_ok (\<lambda>pl. \<not> deadly pl) c c'"
  by (auto simp: seed_platform_def step_ok_def Let_def Platform_def
      split: option.splits prod.splits dest: random_x_spaced)

lemma extend_platform_step:
  "extend_platform gm d c = Some c' \<Longrightarrow> step_ok (\<lambda>pl. d < 3 \<longrightarrow> \<not> deadly pl) c c'"
  by (auto simp: extend_platform_def step_ok_def Let_def Platform_def
      split: option.splits prod.splits if_splits dest: random_x_spaced)

lemma spaced_append:
  "spaced prev (xs @ ys) = (spaced prev xs \<and> spaced (last (prev # xs)) ys)"
  by (induction xs arbitrary: prev) auto

lemma for_range_steps:
  assumes body: "\<And>c c'. body c = Some c' \<Longrightarrow> step_ok Q c c'"
  shows "for_range n body c = Some c' \<Longrightarrow>
           (\<exists>new. platforms c' = platforms c @ new \<and> length new = n
                 \<and> spaced (last_x c) (map plat_x new)
                 \<and> last_x c' = last (last_x c # map plat_x new)
                 \<and> (\<forall>pl \<in> set new. Q pl))"
proof (induction n arbitrary: c)
  case 0
  then show ?case by simp
next
  case (Suc n)
  from Suc.prems obtain c1 where b: "body c = Some c1" and r: "for_range n body c1 = Some c'"
    by (auto split: option.splits)
  from body [OF b] obtain pl where pl: "platforms c1 = platforms c @ [pl]"
    "\<bar>plat_x pl - last_x c\<bar> \<ge> min_horizontal_gap" "last_x c1 = plat_x pl" "Q pl"
    by (auto simp: step_ok_def)
  from Suc.IH [OF r] obtain new where new: "platforms c' = platforms c1 @ new" "length new = n"
    "spaced (last_x c1) (map plat_x new)" "last_x c' = last (last_x c1 # map plat_x new)"
    "\<forall>pl \<in> set new. Q pl"
    by blast
  show ?case
    using pl new by (intro exI [of _ "pl # new"]) auto
qed

lemma initial_chain_fields:
  "last_x (initial_chain g) = SCREEN_WIDTH div 2"
  "platforms (initial_chain g) = [Platform 0 (SCREEN_HEIGHT - 100) SCREEN_WIDTH 300 False False]"
  by (simp_all add: initial_chain_def)

lemma seed_platforms_steps:
  assumes "seed_platforms g = Some c1"
  shows "\<exists>new. platforms c1 = platforms (initial_chain g) @ new \<and> length new = 13
           \<and> spaced (SCREEN_WIDTH div 2) (map plat_x new)
           \<and> last_x c1 = last (SCREEN_WIDTH div 2 # map plat_x new)
           \<and> (\<forall>pl \<in> set new. \<not> deadly pl)"
proof -
  have r: "for_range 13 seed_platform (initial_chain g) = Some c1"
    using assms by (simp only: seed_platforms_def num_platforms_def)
  show ?thesis
    using for_range_steps [of seed_platform "\<lambda>pl. \<not> deadly pl", OF seed_platform_step r]
    by (simp only: initial_chain_fields(1))
qed

lemma extend_platforms_steps:
  assumes "extend_platforms gm d c = Some c'"
  shows "\<exists>new. platforms c' = platforms c @ new \<and> length new = 5
           \<and> spaced (last_x c) (map plat_x new)
           \<and> last_x c' = last (last_x c # map plat_x new)
           \<and> (\<forall>pl \<in> set new. d < 3 \<longrightarrow> \<not> deadly pl)"
proof -
  have r: "for_range 5 (extend_platform gm d) c = Some c'"
    using assms by (simp only: extend_platforms_def)
  show ?thesis
    by (rule for_range_steps [of "extend_platform gm d" "\<lambda>pl. d < 3 \<longrightarrow> \<not> deadly pl",
          OF extend_platform_step r])
qed

lemma run_batches_steps:
  "run_batches bs c = Some c' \<Longrightarrow>
     \<exists>new. platforms c' = platforms c @ new \<and> length new = 5 * length bs
          \<and> spaced (last_x c) (map plat_x new)
          \<and> last_x c' = last (last_x c # map plat_x new)"
proof (induction bs arbitrary: c)
  case Nil
  then show ?case by simp
next
  case (Cons b bs)
  obtain gm d where b: "b = (gm, d)" by (cases b)
  from Cons.prems b obtain c1 where e: "extend_platforms gm d c = Some c1"
    and r: "run_batches bs c1 = Some c'"
    by (auto split: option.splits)
  from extend_platforms_steps [OF e] obtain new1 where n1: "platforms c1 = platforms c @ new1"
    "length new1 = 5" "spaced (last_x c) (map plat_x new1)"
    "last_x c1 = last (last_x c # map plat_x new1)"
    by blast
  from Cons.IH [OF r] obtain new2 where n2: "platforms c' = platforms c1 @ new2"
    "length new2 = 5 * length bs" "spaced (last_x c1) (map plat_x new2)"
    "last_x c' = last (last_x c1 # map plat_x new2)"
    by blast
  have s: "spaced (last_x c) (map plat_x (new1 @ new2))"
    using n1(3) n2(3) by (simp only: map_append spaced_append n1(4) [symmetric] simp_thms)
  have l: "last_x c' = last (last_x c # map plat_x (new1 @ new2))"
    unfolding n2(4) n1(4) by (simp only: map_append last_appendR last.simps) simp
  have p: "platforms c' = platforms c @ new1 @ new2"
    unfolding n2(1) n1(1) by simp
  have n: "length (new1 @ new2) = 5 * length (b # bs)"
    using n1(2) n2(2) by simp
  show ?case
    using p n s l by blast
qed

lemmas generator_defs =
  seed_platforms_def extend_platforms_def initial_chain_def seed_platform_def
  extend_platform_def spawn_orb_def random_x_def random_randint_def random_random_def
  random_choice_def Platform_def Orb_def UPGRADES_def num_platforms_def min_gap_def max_gap_def
  min_horizontal_gap_def SCREEN_WIDTH_def SCREEN_HEIGHT_def py_int_def Let_def

lemma example_seeding:
  "\<exists>c. seed_platforms example_rng = Some c \<and> last_x c = 0 \<and> highest_platform_y c = 100
      \<and> map plat_x (platforms c) = [0, 0, 904, 0, 904, 0, 904, 0, 904, 0, 904, 0, 904, 0]
      \<and> rng c = \<lparr>randint_results = [904, 20, 0, 20, 904, 20, 0, 20, 904, 20],
           random_results = [0.1, 0.01, 0.5, 0.5, 0.5, 0.5, 0.5, 0.5, 0.5, 0.5, 0.5, 0.5, 0.5, 0.5, 0.5],
           choice_results = [0]\<rparr>"
  by (simp add: example_rng_def generator_defs eval_nat_numeral)

lemma example_seeded:
  "seed_platforms example_rng = Some example_seeded"
  "last_x example_seeded = 0"
  "highest_platform_y example_seeded = 100"
  "map plat_x (platforms example_seeded) = [0, 0, 904, 0, 904, 0, 904, 0, 904, 0, 904, 0, 904, 0]"
  "rng example_seeded = \<lparr>randint_results = [904, 20, 0, 20, 904, 20, 0, 20, 904, 20],
           random_results = [0.1, 0.01, 0.5, 0.5, 0.5, 0.5, 0.5, 0.5, 0.5, 0.5, 0.5, 0.5, 0.5, 0.5, 0.5],
           choice_results = [0]\<rparr>"
  using example_seeding by (auto simp: example_seeded_def)

lemma example_level0:
  "\<exists>c. example_level0_batch = Some c
      \<and> map plat_x (drop (length (platforms example_seeded)) (platforms c)) = [904, 0, 904, 0, 904]"
  by (simp add: example_level0_batch_def example_seeded(2-) extend_platforms_def
      extend_platform_def spawn_orb_def random_x_def random_randint_def random_random_def
      random_choice_def Platform_def Orb_def UPGRADES_def min_gap_def max_gap_def
      min_horizontal_gap_def SCREEN_WIDTH_def py_int_def Let_def eval_nat_numeral)

lemma example_level3:
  "\<exists>c. example_level3_batch = Some c
      \<and> length (platforms c) = 19
      \<and> map plat_x (drop 14 (platforms c)) = [904, 0, 904, 0, 904]
      \<and> breakable (platforms c ! 14) \<and> deadly (platforms c ! 14)"
proof -
  have l: "length (platforms example_seeded) = 14"
    using arg_cong [OF example_seeded(4), of length] by simp
  show ?thesis
    by (simp add: example_level3_batch_def example_seeded(2-) l extend_platforms_def
      extend_platform_def spawn_orb_def random_x_def random_randint_def random_random_def
      random_choice_def Platform_def Orb_def UPGRADES_def min_gap_def max_gap_def
      min_horizontal_gap_def SCREEN_WIDTH_def py_int_def Let_def eval_nat_numeral nth_append)
qed

lemma level_at_1500: "get_difficulty_modifiers 1500 = (1.15, 0.94, 1.09, 3)"
  by (simp add: get_difficulty_modifiers_def Let_def SCORE_PER_DIFFICULTY_def)

text \<open>
  C7. In a run of the generator, the 13 platforms of the seeding followed by any
  number of batches of 5, every generated platform lies at least
  \<open>min_horizontal_gap = 200\<close> pixels, horizontally, from the one generated before it (the
  first from the initial \<open>last_x\<close>, the middle of the screen), across the boundaries
  between seeding and batches too.
\<close>

theorem consecutive_platforms_spaced:
  assumes seed: "seed_platforms g = Some c1"
    and batches: "run_batches bs c1 = Some c2"
  shows "spaced (SCREEN_WIDTH div 2) (map plat_x (tl (platforms c2)))
         \<and> length (tl (platforms c2)) = 13 + 5 * length bs
         \<and> min_horizontal_gap = 200"
proof -
  from seed_platforms_steps [OF seed] obtain new1 where
    n1: "platforms c1 = platforms (initial_chain g) @ new1" "length new1 = 13"
    "spaced (SCREEN_WIDTH div 2) (map plat_x new1)"
    "last_x c1 = last (SCREEN_WIDTH div 2 # map plat_x new1)"
    by blast
  from run_batches_steps [OF batches] obtain new2 where
    n2: "platforms c2 = platforms c1 @ new2" "length new2 = 5 * length bs"
    "spaced (last_x c1) (map plat_x new2)"
    by blast
  have t: "tl (platforms c2) = new1 @ new2"
    unfolding n2(1) n1(1) initial_chain_fields by simp
  have s: "spaced (SCREEN_WIDTH div 2) (map plat_x (new1 @ new2))"
    using n1(3) n2(3) by (simp only: map_append spaced_append n1(4) [symmetric] simp_thms)
  have l: "length (new1 @ new2) = 13 + 5 * length bs"
    using n1(2) n2(2) by simp
  show ?thesis
    unfolding t using s l by (simp add: min_horizontal_gap_def)
qed

theorem consecutive_platforms_spaced_witness:
  "spaced (SCREEN_WIDTH div 2)
     [0, 904, 0, 904, 0, 904, 0, 904, 0, 904, 0, 904, 0, 904, 0, 904, 0, 904]
   \<and> map plat_x (tl (platforms (the example_level3_batch)))
        = [0, 904, 0, 904, 0, 904, 0, 904, 0, 904, 0, 904, 0, 904, 0, 904, 0, 904]"
proof -
  from example_level3 obtain c where c: "example_level3_batch = Some c"
    "length (platforms c) = 19" "map plat_x (drop 14 (platforms c)) = [904, 0, 904, 0, 904]"
    by (elim exE conjE)
  have b: "run_batches [(1.09, 3)] example_seeded = Some c"
    using c(1) by (simp add: example_level3_batch_def)
  from run_batches_steps [OF b] obtain new where
    n: "platforms c = platforms example_seeded @ new"
    by blast
  have l: "length (platforms example_seeded) = 14"
    using arg_cong [OF example_seeded(4), of length] by simp
  have "map plat_x (platforms c) = map plat_x (platforms example_seeded) @ map plat_x new"
    using n by simp
  moreover have "map plat_x new = [904, 0, 904, 0, 904]"
    using c(3) n l by simp
  ultimately have m: "map plat_x (tl (platforms c))
      = [0, 904, 0, 904, 0, 904, 0, 904, 0, 904, 0, 904, 0, 904, 0, 904, 0, 904]"
    by (simp add: example_seeded(4) map_tl)
  show ?thesis
    using consecutive_platforms_spaced [OF example_seeded(1) b]
    unfolding c(1) option.sel m by simp
qed

text \<open>
  C4, as the claim states it, fails: in a batch at difficulty level 3, a breakable roll
  of 0.1 and a deadly roll of 0.01 give a platform that is both breakable and deadly.
\<close>

theorem breakable_and_deadly_counterexample:
  "example_level3_batch \<noteq> None
   \<and> breakable (platforms (the example_level3_batch) ! 14)
   \<and> deadly (platforms (the example_level3_batch) ! 14)"
proof -
  from example_level3 obtain c where c: "example_level3_batch = Some c"
    "breakable (platforms c ! 14)" "deadly (platforms c ! 14)"
    by (elim exE conjE)
  show ?thesis
    using c(2,3) by (simp only: c(1) option.sel) simp
qed

text \<open>
  C4, amended. Every platform of the seeding (the ground included), and every platform
  of a batch generated while the difficulty level is below 3, is not deadly, hence never
  both breakable and deadly.
\<close>

theorem no_deadly_platform_below_level_3:
  assumes seed: "seed_platforms g = Some c1"
    and batch: "extend_platforms gap_mult current_difficulty c = Some c'"
    and level: "current_difficulty < 3"
  shows "(\<forall>pl \<in> set (platforms c1). \<not> deadly pl \<and> \<not> (breakable pl \<and> deadly pl))
       \<and> (\<forall>pl \<in> set (drop (length (platforms c)) (platforms c')).
             \<not> deadly pl \<and> \<not> (breakable pl \<and> deadly pl))"
proof -
  from seed_platforms_steps [OF seed] obtain new1 where
    n1: "platforms c1 = platforms (initial_chain g) @ new1" "\<forall>pl \<in> set new1. \<not> deadly pl"
    by blast
  from extend_platforms_steps [OF batch] obtain new2 where
    n2: "platforms c' = platforms c @ new2" "\<forall>pl \<in> set new2. current_difficulty < 3 \<longrightarrow> \<not> deadly pl"
    by blast
  have a: "\<forall>pl \<in> set (platforms c1). \<not> deadly pl"
    using n1 by (auto simp: initial_chain_def Platform_def)
  have b: "\<forall>pl \<in> set (drop (length (platforms c)) (platforms c')). \<not> deadly pl"
    using n2 level by simp
  show ?thesis
    using a b by blast
qed

theorem no_deadly_platform_below_level_3_witness:
  "map deadly (platforms example_seeded) = replicate 14 False
   \<and> map deadly (drop 14 (platforms (the example_level0_batch))) = replicate 5 False"
proof -
  from example_level0 obtain c where c: "example_level0_batch = Some c"
    "map plat_x (drop (length (platforms example_seeded)) (platforms c)) = [904, 0, 904, 0, 904]"
    by (elim exE conjE)
  have b: "extend_platforms 1.0 0 example_seeded = Some c"
    using c(1) by (simp add: example_level0_batch_def)
  have l: "length (platforms example_seeded) = 14"
    using arg_cong [OF example_seeded(4), of length] by simp
  have l2: "length (drop 14 (platforms c)) = 5"
    using arg_cong [OF c(2), of length] by (simp add: l)
  note t = no_deadly_platform_below_level_3 [OF example_seeded(1) b]
  have a1: "map deadly (platforms example_seeded) = replicate 14 False"
    using t l by (intro replicate_eqI) auto
  have a2: "map deadly (drop 14 (platforms c)) = replicate 5 False"
    using t l l2 by (intro replicate_eqI) auto
  show ?thesis
    unfolding c(1) option.sel using a1 a2 by simp
qed

end
